theory Spec2Isabelle
  imports Complex_Main "HOL-Library.Char_ord" "HOL-Library.List_Lexorder"
begin

section \<open>Byte strings\<close>

text \<open>
  A Go \<^verbatim>\<open>string\<close> and a \<^verbatim>\<open>[]byte\<close> are both sequences of bytes; both are modelled
  by \<^typ>\<open>string\<close> (a list of 8-bit characters), and the conversions between them are the
  identity. A slice that may be \<^verbatim>\<open>nil\<close> (\<^verbatim>\<open>json.RawMessage\<close> fields) is a
  \<^typ>\<open>string option\<close>.
\<close>

definition HasPrefix :: "string \<Rightarrow> string \<Rightarrow> bool" where
  "HasPrefix s p = (take (length p) s = p)"

definition TrimPrefix :: "string \<Rightarrow> string \<Rightarrow> string" where
  "TrimPrefix s p = (if HasPrefix s p then drop (length p) s else s)"

text \<open>\<^verbatim>\<open>strings.Split(s, "\n")\<close>: the pieces between line feeds, at least one piece.\<close>

fun Split_newline :: "string \<Rightarrow> string list" where
  "Split_newline [] = [[]]"
| "Split_newline (c # cs) =
     (if c = CHR 0x0A then [] # Split_newline cs
      else (case Split_newline cs of l # ls \<Rightarrow> (c # l) # ls | [] \<Rightarrow> [[c]]))"

text \<open>
  \<^verbatim>\<open>strings.TrimSpace\<close> removes leading and trailing runes with \<^verbatim>\<open>unicode.IsSpace\<close>.
  Those runes are the six ASCII ones, U+0085, U+00A0, U+1680, U+2000 to U+200A, U+2028,
  U+2029, U+202F, U+205F and U+3000; the table holds their UTF-8 encodings. A string
  starts (ends) with such a rune exactly when it starts (ends) with its encoding, and an
  invalid byte decodes to U+FFFD, which is no space, so trimming stops there.
\<close>

definition space_runes :: "string list" where
  "space_runes =
    [[CHR 0x09], [CHR 0x0A], [CHR 0x0B], [CHR 0x0C], [CHR 0x0D], [CHR 0x20],
     [CHR 0xC2, CHR 0x85], [CHR 0xC2, CHR 0xA0],
     [CHR 0xE1, CHR 0x9A, CHR 0x80],
     [CHR 0xE2, CHR 0x80, CHR 0x80], [CHR 0xE2, CHR 0x80, CHR 0x81],
     [CHR 0xE2, CHR 0x80, CHR 0x82], [CHR 0xE2, CHR 0x80, CHR 0x83],
     [CHR 0xE2, CHR 0x80, CHR 0x84], [CHR 0xE2, CHR 0x80, CHR 0x85],
     [CHR 0xE2, CHR 0x80, CHR 0x86], [CHR 0xE2, CHR 0x80, CHR 0x87],
     [CHR 0xE2, CHR 0x80, CHR 0x88], [CHR 0xE2, CHR 0x80, CHR 0x89],
     [CHR 0xE2, CHR 0x80, CHR 0x8A],
     [CHR 0xE2, CHR 0x80, CHR 0xA8], [CHR 0xE2, CHR 0x80, CHR 0xA9],
     [CHR 0xE2, CHR 0x80, CHR 0xAF], [CHR 0xE2, CHR 0x81, CHR 0x9F],
     [CHR 0xE3, CHR 0x80, CHR 0x80]]"

text \<open>The length of the first table entry that the string starts with, 0 when there is none.\<close>

fun leading_space :: "string list \<Rightarrow> string \<Rightarrow> nat" where
  "leading_space [] s = 0"
| "leading_space (e # es) s = (if HasPrefix s e then length e else leading_space es s)"

fun TrimLeft_runes :: "string list \<Rightarrow> string \<Rightarrow> string" where
  "TrimLeft_runes es [] = []"
| "TrimLeft_runes es (c # cs) =
     (if leading_space es (c # cs) = 0 then c # cs
      else TrimLeft_runes es (drop (leading_space es (c # cs) - 1) cs))"

definition TrimSpace :: "string \<Rightarrow> string" where
  "TrimSpace s =
     rev (TrimLeft_runes (map rev space_runes) (rev (TrimLeft_runes space_runes s)))"

section \<open>SSE normalisation (database.go, unwrapSSEResponse)\<close>

text \<open>
  The loop over the lines appends to a \<^verbatim>\<open>strings.Builder\<close>; here it is a left fold with
  the text built so far as accumulator.
\<close>

definition sse_step :: "string \<Rightarrow> string \<Rightarrow> string" where
  "sse_step jsonData line0 =
     (let line = TrimSpace line0
      in if HasPrefix line ''data: '' then jsonData @ TrimPrefix line ''data: '' else jsonData)"

definition unwrapSSEResponse :: "string \<Rightarrow> string" where
  "unwrapSSEResponse data =
     (if \<not> HasPrefix data ''event:'' \<and> \<not> HasPrefix data ''data:'' then data
      else
        let lines = Split_newline data;
            result = foldl sse_step [] lines
        in if result = [] then data else result)"

section \<open>Library functions of Go used by the code\<close>

subsection \<open>Decimal numbers: fmt's \<^verbatim>\<open>%d\<close> and strconv.Atoi\<close>

definition digit_char :: "nat \<Rightarrow> char" where
  "digit_char d = ''0123456789'' ! d"

text \<open>The digits of a number, most significant first; \<open>k\<close> bounds the number of digits.\<close>

fun digits_upto :: "nat \<Rightarrow> nat \<Rightarrow> string" where
  "digits_upto 0 n = [digit_char (n mod 10)]"
| "digits_upto (Suc k) n =
     (if n < 10 then [digit_char n] else digits_upto k (n div 10) @ [digit_char (n mod 10)])"

definition FormatNat :: "nat \<Rightarrow> string" where
  "FormatNat n = digits_upto n n"

definition FormatInt :: "int \<Rightarrow> string" where
  "FormatInt i = (if i < 0 then CHR ''-'' # FormatNat (nat (- i)) else FormatNat (nat i))"

datatype NumError = ErrSyntax | ErrRange

definition is_digit :: "char \<Rightarrow> bool" where
  "is_digit c = (CHR ''0'' \<le> c \<and> c \<le> CHR ''9'')"

definition digit_val :: "char \<Rightarrow> nat" where
  "digit_val c = of_char c - 48"

text \<open>
  \<^verbatim>\<open>strconv.ParseUint(s, 10, 64)\<close> on a non-empty string: the loop stops at the first byte
  that is no digit (syntax error) or that takes the value beyond \<open>2^64 - 1\<close> (range error).
\<close>

fun ParseUint_loop :: "nat \<Rightarrow> string \<Rightarrow> NumError + nat" where
  "ParseUint_loop n [] = Inr n"
| "ParseUint_loop n (c # cs) =
     (if \<not> is_digit c then Inl ErrSyntax
      else if n \<ge> 18446744073709551615 div 10 + 1 then Inl ErrRange
      else if n * 10 + digit_val c > 18446744073709551615 then Inl ErrRange
      else ParseUint_loop (n * 10 + digit_val c) cs)"

text \<open>
  \<^verbatim>\<open>strconv.Atoi\<close> with a 64-bit \<^verbatim>\<open>int\<close>: an optional sign, then decimal digits; the
  value must lie in \<open>[-2^63, 2^63 - 1]\<close>. (Its fast path for short strings returns the same
  results.)
\<close>

definition Atoi :: "string \<Rightarrow> NumError + int" where
  "Atoi s =
     (if s = [] then Inl ErrSyntax
      else
        let neg = (hd s = CHR ''-'');
            ds = (if hd s = CHR ''+'' \<or> hd s = CHR ''-'' then tl s else s)
        in if ds = [] then Inl ErrSyntax
           else (case ParseUint_loop 0 ds of
                   Inl ErrSyntax \<Rightarrow> Inl ErrSyntax
                 | Inl ErrRange \<Rightarrow> Inl ErrRange
                 | Inr un \<Rightarrow>
                     if \<not> neg \<and> un \<ge> 9223372036854775808 then Inl ErrRange
                     else if neg \<and> un > 9223372036854775808 then Inl ErrRange
                     else Inr (if neg then - int un else int un)))"

subsection \<open>encoding/json: strings, byte slices, maps of strings\<close>

definition hex_char :: "nat \<Rightarrow> char" where
  "hex_char d = ''0123456789abcdef'' ! d"

text \<open>
  One ASCII byte inside a JSON string, as \<^verbatim>\<open>json.Marshal\<close> writes it (HTML escaping is
  on): quote and backslash get a backslash, the control characters their short or
  \<^verbatim>\<open>\u00XX\<close> form (\<^verbatim>\<open>\b\<close> and \<^verbatim>\<open>\f\<close> as Go 1.22 and later write them), and
  \<^verbatim>\<open><\<close>, \<^verbatim>\<open>>\<close>, \<^verbatim>\<open>&\<close> the \<^verbatim>\<open>\u00XX\<close> form.
\<close>

definition escape_ascii :: "char \<Rightarrow> string" where
  "escape_ascii b =
     (if b = CHR 0x5C \<or> b = CHR 0x22 then [CHR 0x5C, b]
      else if b = CHR 0x08 then [CHR 0x5C, CHR ''b'']
      else if b = CHR 0x0C then [CHR 0x5C, CHR ''f'']
      else if b = CHR 0x0A then [CHR 0x5C, CHR ''n'']
      else if b = CHR 0x0D then [CHR 0x5C, CHR ''r'']
      else if b = CHR 0x09 then [CHR 0x5C, CHR ''t'']
      else if (of_char b :: nat) < 0x20 \<or> b = CHR ''<'' \<or> b = CHR ''>'' \<or> b = CHR ''&''
        then [CHR 0x5C, CHR ''u'', CHR ''0'', CHR ''0'',
              hex_char ((of_char b :: nat) div 16), hex_char ((of_char b :: nat) mod 16)]
      else [b])"

definition is_cont :: "char \<Rightarrow> bool" where
  "is_cont c = (0x80 \<le> (of_char c :: nat) \<and> (of_char c :: nat) \<le> 0xBF)"

text \<open>The range UTF-8 allows for the second byte, by the first byte \<open>x\<close>.\<close>

definition second_ok :: "nat \<Rightarrow> char \<Rightarrow> bool" where
  "second_ok x c =
     (let y = (of_char c :: nat)
      in if x = 0xE0 then 0xA0 \<le> y \<and> y \<le> 0xBF
         else if x = 0xED then 0x80 \<le> y \<and> y \<le> 0x9F
         else if x = 0xF0 then 0x90 \<le> y \<and> y \<le> 0xBF
         else if x = 0xF4 then 0x80 \<le> y \<and> y \<le> 0x8F
         else 0x80 \<le> y \<and> y \<le> 0xBF)"

text \<open>
  \<^verbatim>\<open>utf8.DecodeRuneInString\<close> at a byte \<open>\<ge> 0x80\<close>: the number of bytes of the rune
  encoded there, or 0 when the bytes are no valid encoding (Go then returns
  \<^verbatim>\<open>RuneError\<close> with size 1).
\<close>

definition rune_size :: "string \<Rightarrow> nat" where
  "rune_size s =
     (case s of
        [] \<Rightarrow> 0
      | b0 # r \<Rightarrow>
          let x = (of_char b0 :: nat)
          in if 0xC2 \<le> x \<and> x \<le> 0xDF then
               (case r of b1 # _ \<Rightarrow> if second_ok x b1 then 2 else 0 | _ \<Rightarrow> 0)
             else if 0xE0 \<le> x \<and> x \<le> 0xEF then
               (case r of
                  b1 # b2 # _ \<Rightarrow> if second_ok x b1 \<and> is_cont b2 then 3 else 0
                | _ \<Rightarrow> 0)
             else if 0xF0 \<le> x \<and> x \<le> 0xF4 then
               (case r of
                  b1 # b2 # b3 # _ \<Rightarrow>
                    if second_ok x b1 \<and> is_cont b2 \<and> is_cont b3 then 4 else 0
                | _ \<Rightarrow> 0)
             else 0)"

text \<open>
  The body of a JSON string: ASCII bytes escaped as above, an invalid byte replaced by
  the escape of U+FFFD, U+2028 and U+2029 written as escapes, every other rune copied.
\<close>

fun appendString_runes :: "string \<Rightarrow> string" where
  "appendString_runes [] = []"
| "appendString_runes (b # bs) =
     (if (of_char b :: nat) < 0x80 then escape_ascii b @ appendString_runes bs
      else if rune_size (b # bs) = 0 then
        [CHR 0x5C, CHR ''u'', CHR ''f'', CHR ''f'', CHR ''f'', CHR ''d''] @ appendString_runes bs
      else if take 3 (b # bs) = [CHR 0xE2, CHR 0x80, CHR 0xA8] then
        [CHR 0x5C, CHR ''u'', CHR ''2'', CHR ''0'', CHR ''2'', CHR ''8'']
          @ appendString_runes (drop 2 bs)
      else if take 3 (b # bs) = [CHR 0xE2, CHR 0x80, CHR 0xA9] then
        [CHR 0x5C, CHR ''u'', CHR ''2'', CHR ''0'', CHR ''2'', CHR ''9'']
          @ appendString_runes (drop 2 bs)
      else take (rune_size (b # bs)) (b # bs)
             @ appendString_runes (drop (rune_size (b # bs) - 1) bs))"

definition encodeString :: "string \<Rightarrow> string" where
  "encodeString s = [CHR 0x22] @ appendString_runes s @ [CHR 0x22]"

text \<open>
  \<^verbatim>\<open>base64.StdEncoding.EncodeToString\<close>: three bytes give four characters of the standard
  alphabet, the last group is padded with \<^verbatim>\<open>=\<close>.
\<close>

definition b64 :: "nat \<Rightarrow> char" where
  "b64 i = ''ABCDEFGHIJKLMNOPQRSTUVWXYZabcdefghijklmnopqrstuvwxyz0123456789+/'' ! i"

fun EncodeToString :: "string \<Rightarrow> string" where
  "EncodeToString [] = []"
| "EncodeToString [a] =
     (let x = (of_char a :: nat)
      in [b64 (x div 4), b64 ((x mod 4) * 16), CHR ''='', CHR ''=''])"
| "EncodeToString [a, b] =
     (let x = (of_char a :: nat); y = (of_char b :: nat)
      in [b64 (x div 4), b64 ((x mod 4) * 16 + y div 16), b64 ((y mod 16) * 4), CHR ''=''])"
| "EncodeToString (a # b # c # rest) =
     (let x = (of_char a :: nat); y = (of_char b :: nat); z = (of_char c :: nat)
      in [b64 (x div 4), b64 ((x mod 4) * 16 + y div 16),
          b64 ((y mod 16) * 4 + z div 64), b64 (z mod 64)] @ EncodeToString rest)"

text \<open>
  \<^verbatim>\<open>json.Marshal\<close> of a value of type \<^verbatim>\<open>[]byte\<close> that is not nil: a JSON string holding
  the base64 encoding of the bytes. It cannot fail.
\<close>

definition Marshal_bytes :: "string \<Rightarrow> string" where
  "Marshal_bytes b = [CHR 0x22] @ EncodeToString b @ [CHR 0x22]"

fun join_comma :: "string list \<Rightarrow> string" where
  "join_comma [] = []"
| "join_comma [x] = x"
| "join_comma (x # y # ys) = x @ '','' @ join_comma (y # ys)"

text \<open>
  \<^verbatim>\<open>json.Marshal\<close> of a \<^verbatim>\<open>map[string]string\<close>, given as the list of its entries (the keys
  of a Go map are distinct): an object with the keys in sorted order.
\<close>

definition Marshal_string_map :: "(string \<times> string) list \<Rightarrow> string" where
  "Marshal_string_map m =
     ''{'' @ join_comma (map (\<lambda>(k, v). encodeString k @ '':'' @ encodeString v) (sort_key fst m))
       @ ''}''"

section \<open>The data model (types)\<close>

text \<open>
  An \<^verbatim>\<open>interface{}\<close> field holds nil or, in this program, a string. Times are
  instants on one clock, as integers.
\<close>

datatype iface = INil | IString string

record JSONRPCError =
  err_Code :: int
  err_Message :: string
  err_Data :: iface

record JSONRPCResponse =
  rpc_ID :: iface
  rpc_JSONRPC :: string
  rpc_Result :: iface
  rpc_Error :: "JSONRPCError option"

record AuditRequest =
  req_ID :: int
  req_Timestamp :: int
  req_Method :: string
  req_RequestID :: string
  req_IPAddress :: string
  req_UserAgent :: string
  req_Request :: "string option"
  req_Headers :: "string option"

record AuditResponse =
  resp_ID :: int
  resp_RequestID :: string
  resp_Timestamp :: int
  resp_Response :: "string option"
  resp_StatusCode :: int
  resp_ProcessTime :: int
  resp_Error :: string

record AuditLog =
  log_ID :: int
  log_Timestamp :: int
  log_Method :: string
  log_RequestID :: string
  log_IPAddress :: string
  log_UserAgent :: string
  log_Request :: "string option"
  log_Response :: "string option"
  log_StatusCode :: int
  log_ProcessTime :: int
  log_Error :: string
  log_Headers :: "string option"

text \<open>
  \<^verbatim>\<open>json.Marshal\<close> of the response types: the fields in declaration order, a field tagged
  \<^verbatim>\<open>omitempty\<close> left out when it is nil.
\<close>

definition Marshal_iface :: "iface \<Rightarrow> string" where
  "Marshal_iface v = (case v of INil \<Rightarrow> ''null'' | IString s \<Rightarrow> encodeString s)"

definition Marshal_JSONRPCError :: "JSONRPCError \<Rightarrow> string" where
  \<open>Marshal_JSONRPCError e =
     ''{"code":'' @ FormatInt (err_Code e)
       @ '',"message":'' @ encodeString (err_Message e)
       @ (if err_Data e = INil then [] else '',"data":'' @ Marshal_iface (err_Data e))
       @ ''}''\<close>

definition Marshal_JSONRPCResponse :: "JSONRPCResponse \<Rightarrow> string" where
  \<open>Marshal_JSONRPCResponse r =
     ''{"id":'' @ Marshal_iface (rpc_ID r)
       @ '',"jsonrpc":'' @ encodeString (rpc_JSONRPC r)
       @ (if rpc_Result r = INil then [] else '',"result":'' @ Marshal_iface (rpc_Result r))
       @ (case rpc_Error r of None \<Rightarrow> [] | Some e \<Rightarrow> '',"error":'' @ Marshal_JSONRPCError e)
       @ ''}''\<close>

text \<open>
  The two functions of encoding/json that parse JSON are parameters of the model:
  \<open>compact_raw\<close> is \<^verbatim>\<open>json.Marshal\<close> of a \<^verbatim>\<open>json.RawMessage\<close> that is not nil (the
  compacted text, or the error for text that is no JSON), and \<open>unmarshal_Method\<close> is
  \<^verbatim>\<open>json.Unmarshal\<close> of a body into a \<^verbatim>\<open>JSONRPCRequest\<close> (the error, or the
  \<^verbatim>\<open>Method\<close> field of the result).
\<close>

record jsonlib =
  compact_raw :: "string \<Rightarrow> string + string"
  unmarshal_Method :: "string \<Rightarrow> string + string"

definition Marshal_RawMessage :: "jsonlib \<Rightarrow> string option \<Rightarrow> string + string" where
  "Marshal_RawMessage lib m = (case m of None \<Rightarrow> Inr ''null'' | Some b \<Rightarrow> compact_raw lib b)"

section \<open>The audit store (database.go)\<close>

text \<open>
  The two tables, as the lists of their rows in insertion order. Columns declared
  \<^verbatim>\<open>NOT NULL\<close> are plain values; the text columns the code scans into
  \<^verbatim>\<open>sql.NullString\<close> are options (\<open>None\<close> is SQL's NULL). The \<^verbatim>\<open>ip_address\<close> and
  \<^verbatim>\<open>user_agent\<close> columns are scanned into plain strings and always written by the code.
  Foreign keys are not enforced (the connection never enables them).
\<close>

record request_row =
  rq_id :: int
  rq_timestamp :: int
  rq_method :: string
  rq_request_id :: string
  rq_ip_address :: string
  rq_user_agent :: string
  rq_request :: string
  rq_headers :: "string option"

record response_row =
  rs_id :: int
  rs_request_id :: string
  rs_timestamp :: int
  rs_response :: "string option"
  rs_status_code :: int
  rs_process_time_ms :: int
  rs_error :: "string option"

record Database =
  audit_requests :: "request_row list"
  audit_responses :: "response_row list"

text \<open>
  An error of the driver that the tables do not determine (I/O, a locked file): \<open>None\<close>
  when the statement runs.
\<close>

type_synonym fault = "string option"

record insert_faults =
  exec_err :: fault
  last_insert_id_err :: fault

definition next_rowid :: "int list \<Rightarrow> int" where
  "next_rowid ids = fold max ids 0 + 1"

text \<open>
  The \<^verbatim>\<open>INSERT\<close> into \<^verbatim>\<open>audit_requests\<close>: rejected when the \<^verbatim>\<open>request_id\<close> is already
  there (the column is \<^verbatim>\<open>UNIQUE\<close>), otherwise the row is appended under a fresh id.
\<close>

definition Exec_insert_request :: "fault \<Rightarrow> Database \<Rightarrow> request_row \<Rightarrow> string + (int \<times> Database)" where
  "Exec_insert_request f db row =
     (case f of
        Some e \<Rightarrow> Inl e
      | None \<Rightarrow>
          if rq_request_id row \<in> set (map rq_request_id (audit_requests db))
          then Inl ''UNIQUE constraint failed: audit_requests.request_id''
          else
            let i = next_rowid (map rq_id (audit_requests db))
            in Inr (i, db\<lparr>audit_requests := audit_requests db @ [row\<lparr>rq_id := i\<rparr>]\<rparr>))"

definition Exec_insert_response :: "fault \<Rightarrow> Database \<Rightarrow> response_row \<Rightarrow> string + (int \<times> Database)" where
  "Exec_insert_response f db row =
     (case f of
        Some e \<Rightarrow> Inl e
      | None \<Rightarrow>
          let i = next_rowid (map rs_id (audit_responses db))
          in Inr (i, db\<lparr>audit_responses := audit_responses db @ [row\<lparr>rs_id := i\<rparr>]\<rparr>))"

text \<open>
  The insert functions return the error (\<open>Inl\<close>) or the record with its \<^verbatim>\<open>ID\<close> set, and
  the new state of the database.
\<close>

definition InsertAuditRequest ::
  "jsonlib \<Rightarrow> insert_faults \<Rightarrow> Database \<Rightarrow> AuditRequest \<Rightarrow> (string + AuditRequest) \<times> Database" where
  "InsertAuditRequest lib f db req =
     (case Marshal_RawMessage lib (req_Request req) of
        Inl e \<Rightarrow> (Inl (''failed to marshal request: '' @ e), db)
      | Inr requestJSON \<Rightarrow>
          (case (if req_Headers req \<noteq> None then Marshal_RawMessage lib (req_Headers req)
                 else Inr []) of
             Inl e \<Rightarrow> (Inl (''failed to marshal headers: '' @ e), db)
           | Inr headersJSON \<Rightarrow>
               (case Exec_insert_request (exec_err f) db
                       \<lparr>rq_id = 0, rq_timestamp = req_Timestamp req, rq_method = req_Method req,
                        rq_request_id = req_RequestID req, rq_ip_address = req_IPAddress req,
                        rq_user_agent = req_UserAgent req, rq_request = requestJSON,
                        rq_headers = Some headersJSON\<rparr> of
                  Inl e \<Rightarrow> (Inl (''failed to insert audit request: '' @ e), db)
                | Inr (i, db') \<Rightarrow>
                    (case last_insert_id_err f of
                       Some e \<Rightarrow> (Inl (''failed to get last insert ID: '' @ e), db')
                     | None \<Rightarrow> (Inr (req\<lparr>req_ID := i\<rparr>), db')))))"

text \<open>
  In \<^verbatim>\<open>InsertAuditResponse\<close> the value handed to \<^verbatim>\<open>json.Marshal\<close> is the result of
  \<^verbatim>\<open>unwrapSSEResponse\<close>, whose type is \<^verbatim>\<open>[]byte\<close>, so the text of the column is
  \<^const>\<open>Marshal_bytes\<close> of it; a nil \<^verbatim>\<open>Response\<close> gives the empty text.
\<close>

definition InsertAuditResponse ::
  "insert_faults \<Rightarrow> Database \<Rightarrow> AuditResponse \<Rightarrow> (string + AuditResponse) \<times> Database" where
  "InsertAuditResponse f db resp =
     (let responseJSON =
            (case resp_Response resp of
               None \<Rightarrow> []
             | Some b \<Rightarrow> Marshal_bytes (unwrapSSEResponse b))
      in case Exec_insert_response (exec_err f) db
                \<lparr>rs_id = 0, rs_request_id = resp_RequestID resp,
                 rs_timestamp = resp_Timestamp resp, rs_response = Some responseJSON,
                 rs_status_code = resp_StatusCode resp,
                 rs_process_time_ms = resp_ProcessTime resp,
                 rs_error = Some (resp_Error resp)\<rparr> of
           Inl e \<Rightarrow> (Inl (''failed to insert audit response: '' @ e), db)
         | Inr (i, db') \<Rightarrow>
             (case last_insert_id_err f of
                Some e \<Rightarrow> (Inl (''failed to get last insert ID: '' @ e), db')
              | None \<Rightarrow> (Inr (resp\<lparr>resp_ID := i\<rparr>), db')))"

subsection \<open>Queries\<close>

text \<open>
  \<^verbatim>\<open>ORDER BY timestamp DESC\<close> is a sort by falling timestamp (SQL leaves the order of
  rows with equal timestamps open; the sort used here keeps them in table order).
  \<^verbatim>\<open>LIMIT ? OFFSET ?\<close> follows SQLite: a negative offset is 0, a negative limit is no
  limit.
\<close>

definition order_by_desc :: "('a \<Rightarrow> int) \<Rightarrow> 'a list \<Rightarrow> 'a list" where
  "order_by_desc ts rows = sort_key (\<lambda>r. - ts r) rows"

definition limit_offset :: "int \<Rightarrow> int \<Rightarrow> 'a list \<Rightarrow> 'a list" where
  "limit_offset l off rows =
     (let rest = drop (nat off) rows in if l < 0 then rest else take (nat l) rest)"

definition scan_request :: "request_row \<Rightarrow> AuditRequest" where
  "scan_request row =
     \<lparr>req_ID = rq_id row, req_Timestamp = rq_timestamp row, req_Method = rq_method row,
      req_RequestID = rq_request_id row, req_IPAddress = rq_ip_address row,
      req_UserAgent = rq_user_agent row, req_Request = Some (rq_request row),
      req_Headers = rq_headers row\<rparr>"

definition scan_response :: "response_row \<Rightarrow> AuditResponse" where
  "scan_response row =
     \<lparr>resp_ID = rs_id row, resp_RequestID = rs_request_id row,
      resp_Timestamp = rs_timestamp row, resp_Response = rs_response row,
      resp_StatusCode = rs_status_code row, resp_ProcessTime = rs_process_time_ms row,
      resp_Error = (case rs_error row of None \<Rightarrow> [] | Some e \<Rightarrow> e)\<rparr>"

definition GetAuditRequests :: "fault \<Rightarrow> Database \<Rightarrow> int \<Rightarrow> int \<Rightarrow> string + AuditRequest list" where
  "GetAuditRequests f db l off =
     (case f of
        Some e \<Rightarrow> Inl (''failed to query audit requests: '' @ e)
      | None \<Rightarrow>
          Inr (map scan_request
                 (limit_offset l off (order_by_desc rq_timestamp (audit_requests db)))))"

definition GetAuditResponses :: "fault \<Rightarrow> Database \<Rightarrow> int \<Rightarrow> int \<Rightarrow> string + AuditResponse list" where
  "GetAuditResponses f db l off =
     (case f of
        Some e \<Rightarrow> Inl (''failed to query audit responses: '' @ e)
      | None \<Rightarrow>
          Inr (map scan_response
                 (limit_offset l off (order_by_desc rs_timestamp (audit_responses db)))))"

text \<open>
  \<^verbatim>\<open>audit_requests r LEFT JOIN audit_responses resp ON r.request_id = resp.request_id\<close>:
  every request row with each response row of the same \<^verbatim>\<open>request_id\<close>, or once with
  NULLs when there is none.
\<close>

definition left_join :: "Database \<Rightarrow> (request_row \<times> response_row option) list" where
  "left_join db =
     concat (map (\<lambda>r.
        let ms = filter (\<lambda>p. rq_request_id r = rs_request_id p) (audit_responses db)
        in if ms = [] then [(r, None)] else map (\<lambda>p. (r, Some p)) ms) (audit_requests db))"

text \<open>
  \<^verbatim>\<open>WHERE resp.request_id IS NULL\<close>: the column is \<^verbatim>\<open>NOT NULL\<close>, so it is NULL exactly on
  the joined rows without a response row.
\<close>

definition orphaned_rows :: "Database \<Rightarrow> request_row list" where
  "orphaned_rows db =
     map fst (filter (\<lambda>(r, p). case p of None \<Rightarrow> True | Some x \<Rightarrow> False) (left_join db))"

definition GetOrphanedRequests :: "fault \<Rightarrow> Database \<Rightarrow> int \<Rightarrow> int \<Rightarrow> string + AuditRequest list" where
  "GetOrphanedRequests f db l off =
     (case f of
        Some e \<Rightarrow> Inl (''failed to query orphaned requests: '' @ e)
      | None \<Rightarrow>
          Inr (map scan_request
                 (limit_offset l off (order_by_desc rq_timestamp (orphaned_rows db)))))"

text \<open>The view \<^verbatim>\<open>audit_logs\<close>: the left join with the response columns defaulted.\<close>

definition audit_logs :: "Database \<Rightarrow> AuditLog list" where
  "audit_logs db =
     map (\<lambda>(r, p).
        \<lparr>log_ID = rq_id r, log_Timestamp = rq_timestamp r, log_Method = rq_method r,
         log_RequestID = rq_request_id r, log_IPAddress = rq_ip_address r,
         log_UserAgent = rq_user_agent r, log_Request = Some (rq_request r),
         log_Response =
           (case p of None \<Rightarrow> Some ''{}''
            | Some x \<Rightarrow> (case rs_response x of None \<Rightarrow> Some ''{}'' | Some t \<Rightarrow> Some t)),
         log_StatusCode = (case p of None \<Rightarrow> 0 | Some x \<Rightarrow> rs_status_code x),
         log_ProcessTime = (case p of None \<Rightarrow> 0 | Some x \<Rightarrow> rs_process_time_ms x),
         log_Error =
           (case p of None \<Rightarrow> []
            | Some x \<Rightarrow> (case rs_error x of None \<Rightarrow> [] | Some e \<Rightarrow> e)),
         log_Headers = rq_headers r\<rparr>)
       (order_by_desc (\<lambda>(r, p). rq_timestamp r) (left_join db))"

definition GetAuditLogs :: "fault \<Rightarrow> Database \<Rightarrow> int \<Rightarrow> int \<Rightarrow> string + AuditLog list" where
  "GetAuditLogs f db l off =
     (case f of
        Some e \<Rightarrow> Inl (''failed to query audit logs: '' @ e)
      | None \<Rightarrow> Inr (limit_offset l off (order_by_desc log_Timestamp (audit_logs db))))"

text \<open>\<^verbatim>\<open>GetAuditLogsByMethod\<close> does not select the \<^verbatim>\<open>headers\<close> column.\<close>

definition GetAuditLogsByMethod ::
  "fault \<Rightarrow> Database \<Rightarrow> string \<Rightarrow> int \<Rightarrow> int \<Rightarrow> string + AuditLog list" where
  "GetAuditLogsByMethod f db m l off =
     (case f of
        Some e \<Rightarrow> Inl (''failed to query audit logs by method: '' @ e)
      | None \<Rightarrow>
          Inr (map (\<lambda>g. g\<lparr>log_Headers := None\<rparr>)
                 (limit_offset l off
                    (order_by_desc log_Timestamp
                       (filter (\<lambda>g. log_Method g = m) (audit_logs db))))))"

subsection \<open>Statistics (GetStats)\<close>

text \<open>
  The result is a \<^verbatim>\<open>map[string]interface{}\<close>: a map from the key to an integer, a
  \<^verbatim>\<open>float64\<close> or a table of counts. A \<^verbatim>\<open>float64\<close> is given by the rational number
  it holds. A table of counts (a \<^verbatim>\<open>map[string]int\<close>) is the list of its entries.
\<close>

text \<open>
  The arithmetic of \<^verbatim>\<open>float64\<close> (IEEE 754 binary64, rounding to nearest, ties to even):
  every operation returns the exact result rounded to the nearest number with a
  significand of 53 bits. \<open>round_half_even\<close> rounds to an integer; \<open>exponent_up\<close> finds the
  \<open>e\<close> with \<open>2^e \<le> x < 2^(e+1)\<close> for \<open>x \<ge> 1\<close>, \<open>exponent_down\<close> the \<open>k\<close> with
  \<open>2^(-k) \<le> x < 2^(1-k)\<close> for \<open>0 < x < 1\<close>, both within the exponent range of the
  format (below \<open>2^(-1022)\<close> the spacing stays \<open>2^(-1074)\<close>). Overflow to infinity
  (results of \<open>2^1024\<close> and more) is not modelled; the statistics stay far below it.
\<close>

definition round_half_even :: "rat \<Rightarrow> int" where
  "round_half_even y =
     (let f = \<lfloor>y\<rfloor>; d = y - of_int f
      in if d < 1 / 2 then f
         else if d > 1 / 2 then f + 1
         else if even f then f else f + 1)"

fun exponent_up :: "nat \<Rightarrow> nat \<Rightarrow> rat \<Rightarrow> nat" where
  "exponent_up 0 k x = k"
| "exponent_up (Suc fuel) k x = (if x < 2 ^ (k + 1) then k else exponent_up fuel (k + 1) x)"

fun exponent_down :: "nat \<Rightarrow> nat \<Rightarrow> rat \<Rightarrow> nat" where
  "exponent_down 0 k x = k"
| "exponent_down (Suc fuel) k x = (if 1 \<le> x * 2 ^ k then k else exponent_down fuel (k + 1) x)"

definition round64_pos :: "rat \<Rightarrow> rat" where
  "round64_pos x =
     (if 1 \<le> x then
        (let e = exponent_up 1023 0 x
         in if e \<le> 52 then of_int (round_half_even (x * 2 ^ (52 - e))) / 2 ^ (52 - e)
            else of_int (round_half_even (x / 2 ^ (e - 52))) * 2 ^ (e - 52))
      else
        (let k = exponent_down 1021 1 x
         in of_int (round_half_even (x * 2 ^ (52 + k))) / 2 ^ (52 + k)))"

definition round64 :: "rat \<Rightarrow> rat" where
  "round64 x = (if x = 0 then 0 else if x < 0 then - round64_pos (- x) else round64_pos x)"

text \<open>
  The conversion \<^verbatim>\<open>float64(i)\<close> of an integer, and the quotient and the product of two
  \<^verbatim>\<open>float64\<close> values (the code divides only by a count that is not 0).
\<close>

definition float64_of_int :: "int \<Rightarrow> rat" where
  "float64_of_int i = round64 (of_int i)"

definition float64_div :: "rat \<Rightarrow> rat \<Rightarrow> rat" where
  "float64_div a b = round64 (a / b)"

definition float64_mul :: "rat \<Rightarrow> rat \<Rightarrow> rat" where
  "float64_mul a b = round64 (a * b)"

datatype stat = IntStat int | FloatStat rat | CountsStat "(string \<times> int) list"

record stats_faults =
  total_requests_err :: fault
  total_responses_err :: fault
  orphaned_err :: fault
  methods_err :: fault
  status_err :: fault
  recent_err :: fault
  errors_err :: fault
  avg_err :: fault

text \<open>\<^verbatim>\<open>GROUP BY\<close> with \<^verbatim>\<open>COUNT(*)\<close>, then \<^verbatim>\<open>ORDER BY count DESC LIMIT 10\<close>.\<close>

definition group_count :: "'a list \<Rightarrow> ('a \<times> int) list" where
  "group_count xs = map (\<lambda>k. (k, int (count_list xs k))) (remdups xs)"

definition top10 :: "('a \<times> int) list \<Rightarrow> ('a \<times> int) list" where
  "top10 g = take 10 (order_by_desc snd g)"

text \<open>
  \<^verbatim>\<open>SELECT COUNT(*) FROM audit_responses WHERE error IS NOT NULL AND error != ''\<close> and
  \<^verbatim>\<open>SELECT AVG(process_time_ms) FROM audit_responses WHERE process_time_ms > 0\<close>; the
  average of no rows is NULL. SQLite's \<^verbatim>\<open>AVG\<close> over integers returns a double: the sum
  of the values, converted to a double, divided by their number as a double. (The sum is
  the exact integer sum as long as it fits 64 bits; the releases of SQLite that add in
  floating point give the same double while the sum is below \<open>2^53\<close>.)
\<close>

definition error_count :: "Database \<Rightarrow> int" where
  "error_count db =
     int (length (filter (\<lambda>p. case rs_error p of None \<Rightarrow> False | Some e \<Rightarrow> e \<noteq> [])
                    (audit_responses db)))"

definition avg_process_time :: "Database \<Rightarrow> rat option" where
  "avg_process_time db =
     (let ts = map rs_process_time_ms (filter (\<lambda>p. rs_process_time_ms p > 0) (audit_responses db))
      in if ts = [] then None
         else Some (float64_div (float64_of_int (sum_list ts))
                      (float64_of_int (int (length ts)))))"

text \<open>
  The count of the last hour compares the stored timestamp text with SQLite's
  \<^verbatim>\<open>datetime('now', '-1 hour')\<close>; the comparison is the parameter \<open>recent\<close>.
\<close>

definition GetStats ::
  "stats_faults \<Rightarrow> (int \<Rightarrow> bool) \<Rightarrow> Database \<Rightarrow> string + (string \<rightharpoonup> stat)" where
  "GetStats f recent db =
     (case total_requests_err f of
        Some e \<Rightarrow> Inl (''failed to get total request count: '' @ e)
      | None \<Rightarrow>
     (case total_responses_err f of
        Some e \<Rightarrow> Inl (''failed to get total response count: '' @ e)
      | None \<Rightarrow>
     (case methods_err f of
        Some e \<Rightarrow> Inl (''failed to query method stats: '' @ e)
      | None \<Rightarrow>
          let totalRequests = int (length (audit_requests db));
              totalResponses = int (length (audit_responses db));
              stats1 = [''total_requests'' \<mapsto> IntStat totalRequests,
                        ''total_responses'' \<mapsto> IntStat totalResponses];
              stats2 = (case orphaned_err f of
                          Some e \<Rightarrow> stats1
                        | None \<Rightarrow>
                            stats1(''orphaned_requests'' \<mapsto>
                              IntStat (int (length (orphaned_rows db)))));
              stats3 = stats2(''methods'' \<mapsto>
                         CountsStat (top10 (group_count (map rq_method (audit_requests db)))));
              stats4 = (case status_err f of
                          Some e \<Rightarrow> stats3
                        | None \<Rightarrow>
                            stats3(''status_codes'' \<mapsto>
                              CountsStat (map (\<lambda>(c, n). (FormatInt c, n))
                                (top10 (group_count (map rs_status_code (audit_responses db)))))));
              stats5 = (case recent_err f of
                          Some e \<Rightarrow> stats4
                        | None \<Rightarrow>
                            stats4(''requests_last_hour'' \<mapsto>
                              IntStat (int (length (filter (\<lambda>r. recent (rq_timestamp r))
                                                      (audit_requests db))))));
              stats6 = (case errors_err f of
                          Some e \<Rightarrow> stats5
                        | None \<Rightarrow>
                            let errorCount = error_count db
                            in stats5(''error_count'' \<mapsto> IntStat errorCount,
                                      ''error_rate'' \<mapsto>
                                        FloatStat
                                          (if totalResponses > 0
                                           then float64_mul
                                                  (float64_div (float64_of_int errorCount)
                                                     (float64_of_int totalResponses))
                                                  100
                                           else 0)));
              stats7 = (case avg_err f of
                          Some e \<Rightarrow> stats6
                        | None \<Rightarrow>
                            (case avg_process_time db of
                               None \<Rightarrow> stats6
                             | Some a \<Rightarrow> stats6(''avg_response_time_ms'' \<mapsto> FloatStat a)))
          in Inr stats7)))"

section \<open>The telemetry sink (tinybird.go) and the dual writer\<close>

text \<open>
  What the sink's HTTP client returns for one \<^verbatim>\<open>POST\<close>: a transport error, or a status
  code and a body. The state of the sink is the list of the posts made to it: the data
  source named in the URL and the record the event was built from.
\<close>

datatype http_reply = TransportError string | Reply int string

datatype tb_event = TbRequest AuditRequest | TbResponse AuditResponse

type_synonym Tinybird = "(string \<times> tb_event) list"

definition sendEvent :: "http_reply \<Rightarrow> string \<Rightarrow> tb_event \<Rightarrow> Tinybird \<Rightarrow> fault \<times> Tinybird" where
  "sendEvent reply datasource event tb =
     (case reply of
        TransportError e \<Rightarrow> (Some (''failed to send event: '' @ e), tb @ [(datasource, event)])
      | Reply code body \<Rightarrow>
          (if code \<noteq> 202 \<and> code \<noteq> 200
           then Some (''tinybird returned status: '' @ FormatInt code @ '', body: '' @ body)
           else None,
           tb @ [(datasource, event)]))"

definition Tinybird_InsertAuditRequest :: "http_reply \<Rightarrow> AuditRequest \<Rightarrow> Tinybird \<Rightarrow> fault \<times> Tinybird" where
  "Tinybird_InsertAuditRequest reply req tb = sendEvent reply ''audit_requests'' (TbRequest req) tb"

definition Tinybird_InsertAuditResponse :: "http_reply \<Rightarrow> AuditResponse \<Rightarrow> Tinybird \<Rightarrow> fault \<times> Tinybird" where
  "Tinybird_InsertAuditResponse reply resp tb = sendEvent reply ''audit_responses'' (TbResponse resp) tb"

text \<open>
  The state the writes act on: the database, the sink, and the lines written to the
  process log.
\<close>

record world =
  w_db :: Database
  w_tinybird :: Tinybird
  w_log :: "string list"

text \<open>\<^verbatim>\<open>DualDatabase\<close>: the result is the error returned to the caller, if any.\<close>

definition Dual_InsertAuditRequest ::
  "jsonlib \<Rightarrow> insert_faults \<Rightarrow> http_reply \<Rightarrow> world \<Rightarrow> AuditRequest \<Rightarrow> fault \<times> world" where
  "Dual_InsertAuditRequest lib f reply w req =
     (case InsertAuditRequest lib f (w_db w) req of
        (Inl e, db') \<Rightarrow> (Some e, w\<lparr>w_db := db'\<rparr>)
      | (Inr req', db') \<Rightarrow>
          (case Tinybird_InsertAuditRequest reply req' (w_tinybird w) of
             (Some e, tb') \<Rightarrow>
               (None, w\<lparr>w_db := db', w_tinybird := tb',
                        w_log := w_log w @ [''Failed to write request to Tinybird: '' @ e]\<rparr>)
           | (None, tb') \<Rightarrow> (None, w\<lparr>w_db := db', w_tinybird := tb'\<rparr>)))"

definition Dual_InsertAuditResponse ::
  "insert_faults \<Rightarrow> http_reply \<Rightarrow> world \<Rightarrow> AuditResponse \<Rightarrow> fault \<times> world" where
  "Dual_InsertAuditResponse f reply w resp =
     (case InsertAuditResponse f (w_db w) resp of
        (Inl e, db') \<Rightarrow> (Some e, w\<lparr>w_db := db'\<rparr>)
      | (Inr resp', db') \<Rightarrow>
          (case Tinybird_InsertAuditResponse reply resp' (w_tinybird w) of
             (Some e, tb') \<Rightarrow>
               (None, w\<lparr>w_db := db', w_tinybird := tb',
                        w_log := w_log w @ [''Failed to write response to Tinybird: '' @ e]\<rparr>)
           | (None, tb') \<Rightarrow> (None, w\<lparr>w_db := db', w_tinybird := tb'\<rparr>)))"

section \<open>The gateway (gateway.go)\<close>

subsection \<open>HTTP messages\<close>

text \<open>
  An \<^verbatim>\<open>http.Header\<close> is a Go map from a key to its values, given as the list of its
  entries. The keys of the headers of a parsed message, and the literal keys the code
  uses, are in canonical form already, so the canonicalisation that \<^verbatim>\<open>Get\<close>, \<^verbatim>\<open>Add\<close> and
  \<^verbatim>\<open>Set\<close> apply to the key is left out.
\<close>

type_synonym header = "(string \<times> string list) list"

definition Header_Values :: "header \<Rightarrow> string \<Rightarrow> string list" where
  "Header_Values h k = (case map_of h k of None \<Rightarrow> [] | Some vs \<Rightarrow> vs)"

definition Header_Get :: "header \<Rightarrow> string \<Rightarrow> string" where
  "Header_Get h k = (case Header_Values h k of [] \<Rightarrow> [] | v # vs \<Rightarrow> v)"

definition Header_Add :: "string \<Rightarrow> string \<Rightarrow> header \<Rightarrow> header" where
  "Header_Add k v h =
     (case map_of h k of
        None \<Rightarrow> h @ [(k, [v])]
      | Some vs \<Rightarrow> map (\<lambda>(k', vs'). if k' = k then (k', vs' @ [v]) else (k', vs')) h)"

definition Header_Set :: "string \<Rightarrow> string \<Rightarrow> header \<Rightarrow> header" where
  "Header_Set k v h =
     (case map_of h k of
        None \<Rightarrow> h @ [(k, [v])]
      | Some vs \<Rightarrow> map (\<lambda>(k', vs'). if k' = k then (k', [v]) else (k', vs')) h)"

text \<open>The two nested loops that copy every value of every key with \<^verbatim>\<open>Add\<close>.\<close>

definition copy_header :: "header \<Rightarrow> header \<Rightarrow> header" where
  "copy_header src dst =
     fold (\<lambda>(key, vals) h. fold (\<lambda>v h'. Header_Add key v h') vals h) src dst"

text \<open>
  The inbound request: the result of reading its body (an error, or the bytes), its
  headers and the remote address of the connection.
\<close>

record inbound =
  in_Body :: "string + string"
  in_Header :: header
  in_RemoteAddr :: string

text \<open>What the handler writes to its \<^verbatim>\<open>http.ResponseWriter\<close>.\<close>

record ResponseWriter =
  rw_Header :: header
  rw_StatusCode :: int
  rw_Body :: string

text \<open>The request sent upstream, and the response of the upstream as the client returns it.\<close>

record outbound =
  out_URL :: string
  out_Header :: header
  out_Body :: string

record upstream_response =
  up_StatusCode :: int
  up_Header :: header
  up_Body :: "string + string"

definition http_Error :: "string \<Rightarrow> int \<Rightarrow> ResponseWriter" where
  "http_Error msg code =
     \<lparr>rw_Header = [(''Content-Type'', [''text/plain; charset=utf-8'']),
                   (''X-Content-Type-Options'', [''nosniff''])],
      rw_StatusCode = code, rw_Body = msg @ [CHR 0x0A]\<rparr>"

subsection \<open>Utility functions\<close>

fun LastIndex_byte :: "char \<Rightarrow> string \<Rightarrow> nat option" where
  "LastIndex_byte c [] = None"
| "LastIndex_byte c (x # xs) =
     (case LastIndex_byte c xs of
        Some i \<Rightarrow> Some (Suc i)
      | None \<Rightarrow> if x = c then Some 0 else None)"

definition getClientIP :: "inbound \<Rightarrow> string" where
  "getClientIP r =
     (let xff = Header_Get (in_Header r) ''X-Forwarded-For''
      in if xff \<noteq> [] then TrimSpace (takeWhile (\<lambda>c. c \<noteq> CHR '','') xff)
         else
           let xri = Header_Get (in_Header r) ''X-Real-IP''
           in if xri \<noteq> [] then xri
              else
                (case LastIndex_byte CHR '':'' (in_RemoteAddr r) of
                   Some colon \<Rightarrow> take colon (in_RemoteAddr r)
                 | None \<Rightarrow> in_RemoteAddr r))"

text \<open>
  \<^verbatim>\<open>generateRequestID\<close> reads the clock twice: \<open>nanos\<close> is \<^verbatim>\<open>UnixNano()\<close> of the first
  reading and \<open>secs\<close> is \<^verbatim>\<open>Unix()\<close> of the second. Go's \<^verbatim>\<open>%\<close> truncates towards zero.
\<close>

definition generateRequestID :: "int \<Rightarrow> int \<Rightarrow> string" where
  "generateRequestID nanos secs =
     ''req_'' @ FormatInt nanos @ ''_''
       @ FormatInt (if secs \<ge> 0 then secs mod 1000 else - ((- secs) mod 1000))"

subsection \<open>The pipeline\<close>

text \<open>
  The gateway holds the target URL and, when \<^verbatim>\<open>SetTinybirdLogger\<close> was called, the
  sink (\<open>g_tinybird_set\<close>: \<^verbatim>\<open>g.tinybirdDB != nil\<close>). Its \<^verbatim>\<open>db\<close> field has the type
  \<^verbatim>\<open>*database.Database\<close>: the gateway writes to the SQLite store directly.

  Everything one call reads from outside is in \<open>call_env\<close>: the clock readings, the
  faults of the two store inserts, the replies of the sink, and what the HTTP client
  returns for the forwarded request.
\<close>

record Gateway =
  g_targetURL :: string
  g_tinybird_set :: bool

record call_env =
  startTime :: int
  id_nanos :: int
  id_secs :: int
  request_faults :: insert_faults
  tb_request_reply :: http_reply
  NewRequest_err :: fault
  client_Do :: "string + upstream_response"
  response_time :: int
  since_ms :: int
  response_faults :: insert_faults
  tb_response_reply :: http_reply

text \<open>The writes of one record as the gateway makes them: store first, then the sink.\<close>

definition log_request :: "jsonlib \<Rightarrow> Gateway \<Rightarrow> call_env \<Rightarrow> world \<Rightarrow> AuditRequest \<Rightarrow> world" where
  "log_request lib g env w auditRequest =
     (let (res, db') = InsertAuditRequest lib (request_faults env) (w_db w) auditRequest;
          auditRequest' = (case res of Inl e \<Rightarrow> auditRequest | Inr r \<Rightarrow> r);
          w1 = (case res of
                  Inl e \<Rightarrow> w\<lparr>w_db := db',
                             w_log := w_log w @ [''Failed to insert audit request: '' @ e]\<rparr>
                | Inr r \<Rightarrow> w\<lparr>w_db := db'\<rparr>)
      in if g_tinybird_set g then
           (case Tinybird_InsertAuditRequest (tb_request_reply env) auditRequest' (w_tinybird w1) of
              (Some e, tb') \<Rightarrow>
                w1\<lparr>w_tinybird := tb',
                   w_log := w_log w1 @ [''Failed to insert audit request to Tinybird: '' @ e]\<rparr>
            | (None, tb') \<Rightarrow> w1\<lparr>w_tinybird := tb'\<rparr>)
         else w1)"

definition log_response :: "Gateway \<Rightarrow> call_env \<Rightarrow> world \<Rightarrow> AuditResponse \<Rightarrow> world" where
  "log_response g env w auditResponse =
     (let (res, db') = InsertAuditResponse (response_faults env) (w_db w) auditResponse;
          auditResponse' = (case res of Inl e \<Rightarrow> auditResponse | Inr r \<Rightarrow> r);
          w1 = (case res of
                  Inl e \<Rightarrow> w\<lparr>w_db := db',
                             w_log := w_log w @ [''Failed to insert audit response: '' @ e]\<rparr>
                | Inr r \<Rightarrow> w\<lparr>w_db := db'\<rparr>)
      in if g_tinybird_set g then
           (case Tinybird_InsertAuditResponse (tb_response_reply env) auditResponse' (w_tinybird w1) of
              (Some e, tb') \<Rightarrow>
                w1\<lparr>w_tinybird := tb',
                   w_log := w_log w1 @ [''Failed to insert audit response to Tinybird: '' @ e]\<rparr>
            | (None, tb') \<Rightarrow> w1\<lparr>w_tinybird := tb'\<rparr>)
         else w1)"

definition errorResp :: "string \<Rightarrow> JSONRPCResponse" where
  "errorResp errorMsg =
     \<lparr>rpc_ID = INil, rpc_JSONRPC = ''2.0'', rpc_Result = INil,
      rpc_Error = Some \<lparr>err_Code = - 32603, err_Message = ''Internal error'',
                        err_Data = IString errorMsg\<rparr>\<rparr>"

definition error_auditResponse :: "call_env \<Rightarrow> string \<Rightarrow> string \<Rightarrow> int \<Rightarrow> AuditResponse" where
  "error_auditResponse env errorMsg requestID statusCode =
     \<lparr>resp_ID = 0, resp_RequestID = requestID, resp_Timestamp = response_time env,
      resp_Response = Some (Marshal_JSONRPCResponse (errorResp errorMsg)),
      resp_StatusCode = statusCode, resp_ProcessTime = since_ms env,
      resp_Error = errorMsg\<rparr>"

definition handleError ::
  "Gateway \<Rightarrow> call_env \<Rightarrow> world \<Rightarrow> string \<Rightarrow> string \<Rightarrow> int \<Rightarrow> ResponseWriter \<times> world" where
  "handleError g env w errorMsg requestID statusCode =
     (let responseBody = Marshal_JSONRPCResponse (errorResp errorMsg);
          auditResponse = error_auditResponse env errorMsg requestID statusCode;
          w' = log_response g env w auditResponse
      in (\<lparr>rw_Header = Header_Set ''Content-Type'' ''application/json'' [],
           rw_StatusCode = statusCode, rw_Body = responseBody\<rparr>, w'))"

definition forward_header :: "inbound \<Rightarrow> string \<Rightarrow> header" where
  "forward_header r requestID =
     Header_Set ''X-Gateway'' ''golf-audit-gateway''
       (Header_Set ''X-Request-ID'' requestID
          (Header_Set ''X-Forwarded-For'' (getClientIP r)
             (copy_header (in_Header r) [])))"

definition upstream_auditResponse :: "call_env \<Rightarrow> string \<Rightarrow> int \<Rightarrow> string \<Rightarrow> AuditResponse" where
  "upstream_auditResponse env requestID code responseBody =
     \<lparr>resp_ID = 0, resp_RequestID = requestID, resp_Timestamp = response_time env,
      resp_Response = Some responseBody, resp_StatusCode = code,
      resp_ProcessTime = since_ms env, resp_Error = []\<rparr>"

text \<open>
  \<^verbatim>\<open>forwardRequest\<close>: besides the response and the new state, the result names the
  request handed to the HTTP client, if the code got that far.
\<close>

definition forwardRequest ::
  "Gateway \<Rightarrow> call_env \<Rightarrow> world \<Rightarrow> inbound \<Rightarrow> string \<Rightarrow> string
     \<Rightarrow> ResponseWriter \<times> world \<times> outbound option" where
  "forwardRequest g env w r requestBody requestID =
     (case NewRequest_err env of
        Some e \<Rightarrow>
          (let (rw, w') = handleError g env w ''Failed to create forward request'' requestID 500
           in (rw, w', None))
      | None \<Rightarrow>
          let req = \<lparr>out_URL = g_targetURL g, out_Header = forward_header r requestID,
                     out_Body = requestBody\<rparr>
          in (case client_Do env of
                Inl err \<Rightarrow>
                  (let (rw, w') = handleError g env w (''Failed to forward request: '' @ err)
                                    requestID 502
                   in (rw, w', Some req))
              | Inr resp \<Rightarrow>
                  (case up_Body resp of
                     Inl err \<Rightarrow>
                       (let (rw, w') = handleError g env w ''Failed to read response'' requestID 500
                        in (rw, w', Some req))
                   | Inr responseBody \<Rightarrow>
                       let auditResponse =
                             upstream_auditResponse env requestID (up_StatusCode resp) responseBody;
                           w' = log_response g env w auditResponse
                       in (\<lparr>rw_Header = copy_header (up_Header resp) [],
                            rw_StatusCode = up_StatusCode resp, rw_Body = responseBody\<rparr>,
                           w', Some req))))"

definition request_method :: "jsonlib \<Rightarrow> string \<Rightarrow> string" where
  "request_method lib body =
     (case unmarshal_Method lib body of
        Inr m \<Rightarrow> if m \<noteq> [] then m else ''unknown''
      | Inl e \<Rightarrow> ''unknown'')"

definition captured_headers :: "header \<Rightarrow> (string \<times> string) list" where
  "captured_headers h = map (\<lambda>(key, vals). (key, hd vals)) (filter (\<lambda>(key, vals). vals \<noteq> []) h)"

definition new_auditRequest :: "jsonlib \<Rightarrow> call_env \<Rightarrow> inbound \<Rightarrow> string \<Rightarrow> string \<Rightarrow> AuditRequest" where
  "new_auditRequest lib env r body requestID =
     \<lparr>req_ID = 0, req_Timestamp = startTime env, req_Method = request_method lib body,
      req_RequestID = requestID, req_IPAddress = getClientIP r,
      req_UserAgent = Header_Get (in_Header r) ''User-Agent'',
      req_Request = Some body,
      req_Headers = Some (Marshal_string_map (captured_headers (in_Header r)))\<rparr>"

definition ProxyJSONRPC ::
  "jsonlib \<Rightarrow> Gateway \<Rightarrow> call_env \<Rightarrow> world \<Rightarrow> inbound
     \<Rightarrow> ResponseWriter \<times> world \<times> outbound option" where
  "ProxyJSONRPC lib g env w r =
     (let requestID = generateRequestID (id_nanos env) (id_secs env)
      in case in_Body r of
           Inl err \<Rightarrow> (http_Error ''Failed to read request body'' 400, w, None)
         | Inr body \<Rightarrow>
             let auditRequest = new_auditRequest lib env r body requestID;
                 w1 = log_request lib g env w auditRequest
             in if g_targetURL g = [] then
                  (let (rw, w') = handleError g env w1 ''No target URL configured'' requestID 503
                   in (rw, w', None))
                else forwardRequest g env w1 r body requestID)"

subsection \<open>The listing endpoints\<close>

text \<open>
  The four listing handlers start with the same lines: \<^verbatim>\<open>limit\<close> is 50 and \<^verbatim>\<open>offset\<close> is
  0 unless the query parameter is present, parses with \<^verbatim>\<open>strconv.Atoi\<close> and passes the
  range test. \<open>Values_Get\<close> is \<^verbatim>\<open>url.Values.Get\<close>: the first value of the key, or the
  empty string.
\<close>

definition Values_Get :: "(string \<times> string list) list \<Rightarrow> string \<Rightarrow> string" where
  "Values_Get q k = (case map_of q k of Some (v # vs) \<Rightarrow> v | _ \<Rightarrow> [])"

definition resolve_limit :: "string \<Rightarrow> int" where
  "resolve_limit limitStr =
     (if limitStr \<noteq> [] then
        (case Atoi limitStr of
           Inr l \<Rightarrow> if l > 0 \<and> l \<le> 1000 then l else 50
         | Inl err \<Rightarrow> 50)
      else 50)"

definition resolve_offset :: "string \<Rightarrow> int" where
  "resolve_offset offsetStr =
     (if offsetStr \<noteq> [] then
        (case Atoi offsetStr of
           Inr ofs \<Rightarrow> if ofs \<ge> 0 then ofs else 0
         | Inl err \<Rightarrow> 0)
      else 0)"

text \<open>
  A handler answers with \<^verbatim>\<open>http.Error\<close> (\<open>Inl\<close>) or with the JSON object of the rows
  and the \<^verbatim>\<open>limit\<close>, \<^verbatim>\<open>offset\<close> and \<^verbatim>\<open>count\<close> fields (\<open>Inr\<close>).
\<close>

record 'a listing =
  lst_rows :: "'a list"
  lst_limit :: int
  lst_offset :: int
  lst_count :: int

definition respond_listing ::
  "string \<Rightarrow> int \<Rightarrow> int \<Rightarrow> string + 'a list \<Rightarrow> ResponseWriter + 'a listing" where
  "respond_listing what l ofs res =
     (case res of
        Inl err \<Rightarrow> Inl (http_Error (''Failed to retrieve '' @ what @ '': '' @ err) 500)
      | Inr rows \<Rightarrow>
          Inr \<lparr>lst_rows = rows, lst_limit = l, lst_offset = ofs, lst_count = int (length rows)\<rparr>)"

definition GetAuditRequests_handler ::
  "fault \<Rightarrow> Database \<Rightarrow> (string \<times> string list) list \<Rightarrow> ResponseWriter + AuditRequest listing" where
  "GetAuditRequests_handler f db q =
     (let l = resolve_limit (Values_Get q ''limit'');
          ofs = resolve_offset (Values_Get q ''offset'')
      in respond_listing ''audit requests'' l ofs (GetAuditRequests f db l ofs))"

definition GetAuditResponses_handler ::
  "fault \<Rightarrow> Database \<Rightarrow> (string \<times> string list) list \<Rightarrow> ResponseWriter + AuditResponse listing" where
  "GetAuditResponses_handler f db q =
     (let l = resolve_limit (Values_Get q ''limit'');
          ofs = resolve_offset (Values_Get q ''offset'')
      in respond_listing ''audit responses'' l ofs (GetAuditResponses f db l ofs))"

definition GetOrphanedRequests_handler ::
  "fault \<Rightarrow> Database \<Rightarrow> (string \<times> string list) list \<Rightarrow> ResponseWriter + AuditRequest listing" where
  "GetOrphanedRequests_handler f db q =
     (let l = resolve_limit (Values_Get q ''limit'');
          ofs = resolve_offset (Values_Get q ''offset'')
      in respond_listing ''orphaned requests'' l ofs (GetOrphanedRequests f db l ofs))"

definition GetAuditLogs_handler ::
  "fault \<Rightarrow> Database \<Rightarrow> (string \<times> string list) list \<Rightarrow> ResponseWriter + AuditLog listing" where
  "GetAuditLogs_handler f db q =
     (let l = resolve_limit (Values_Get q ''limit'');
          ofs = resolve_offset (Values_Get q ''offset'');
          m = Values_Get q ''method''
      in respond_listing ''audit logs'' l ofs
           (if m \<noteq> [] then GetAuditLogsByMethod f db m l ofs else GetAuditLogs f db l ofs))"

section \<open>The orphaned requests, as the specification words them\<close>


section \<open>Example inputs\<close>

definition example_request_row :: "int \<Rightarrow> int \<Rightarrow> string \<Rightarrow> request_row" where
  "example_request_row i ts rid =
     \<lparr>rq_id = i, rq_timestamp = ts, rq_method = ''ping'', rq_request_id = rid,
      rq_ip_address = ''10.0.0.7'', rq_user_agent = ''curl/8.0'', rq_request = ''{}'',
      rq_headers = Some ''{}''\<rparr>"

definition example_response_row :: "int \<Rightarrow> string \<Rightarrow> int \<Rightarrow> int \<Rightarrow> string \<Rightarrow> response_row" where
  "example_response_row i rid code ms err =
     \<lparr>rs_id = i, rs_request_id = rid, rs_timestamp = 40, rs_response = Some [],
      rs_status_code = code, rs_process_time_ms = ms, rs_error = Some err\<rparr>"

text \<open>
  Three requests \<open>a\<close>, \<open>b\<close>, \<open>c\<close> captured at the times 10, 30 and 20; one response for
  \<open>b\<close> (status 200, 40 ms, no error) and one response with an error text and a process
  time of 0 ms whose request is not in the table.
\<close>

definition example_store :: Database where
  "example_store =
     \<lparr>audit_requests = [example_request_row 1 10 ''a'', example_request_row 2 30 ''b'',
                        example_request_row 3 20 ''c''],
      audit_responses = [example_response_row 1 ''b'' 200 40 [],
                         example_response_row 2 ''z'' 502 0 ''Failed to forward request: refused'']\<rparr>"

definition no_stats_faults :: stats_faults where
  "no_stats_faults =
     \<lparr>total_requests_err = None, total_responses_err = None, orphaned_err = None,
      methods_err = None, status_err = None, recent_err = None, errors_err = None,
      avg_err = None\<rparr>"

section \<open>Properties of the SSE normalisation\<close>

lemma HasPrefix_append: "HasPrefix s (p @ q) \<Longrightarrow> HasPrefix s p"
proof -
  assume h: "HasPrefix s (p @ q)"
  have "take (length p) s = take (length p) (take (length (p @ q)) s)"
    by (simp add: min_def)
  also have "\<dots> = take (length p) (p @ q)"
    using h by (simp only: HasPrefix_def)
  finally show ?thesis by (simp add: HasPrefix_def)
qed

lemma HasPrefix_data_space: "HasPrefix s ''data: '' \<Longrightarrow> HasPrefix s ''data:''"
  using HasPrefix_append [of s "''data:''" "'' ''"] by simp

lemma foldl_sse_step_no_data:
  "\<forall>line\<in>set ls. \<not> HasPrefix (TrimSpace line) ''data: '' \<Longrightarrow> foldl sse_step acc ls = acc"
  by (induction ls arbitrary: acc) (simp_all add: sse_step_def Let_def)

lemma unwrapSSEResponse_no_data_line:
  "\<forall>line\<in>set (Split_newline data). \<not> HasPrefix (TrimSpace line) ''data: '' \<Longrightarrow>
   unwrapSSEResponse data = data"
  by (simp add: unwrapSSEResponse_def Let_def foldl_sse_step_no_data)

lemma unwrapSSEResponse_example:
  \<open>unwrapSSEResponse ''event: message\<newline>data: {"a":1}\<newline>\<newline>data: {"b":2}''
     = ''{"a":1}{"b":2}''\<close>
  by (simp add: unwrapSSEResponse_def sse_step_def TrimSpace_def TrimPrefix_def
        space_runes_def HasPrefix_def Let_def)

text \<open>
  Claim C5. \<^const>\<open>unwrapSSEResponse\<close> is the identity on every body that does not begin
  with \<^verbatim>\<open>event:\<close> or \<^verbatim>\<open>data:\<close>; on the body
  \<^verbatim>\<open>event: message\ndata: {"a":1}\n\ndata: {"b":2}\<close> it returns \<^verbatim>\<open>{"a":1}{"b":2}\<close>, the
  payloads of the \<^verbatim>\<open>data:\<close> lines concatenated; and a body that begins with one of the
  two prefixes but has no line that (trimmed) starts with \<^verbatim>\<open>data:\<close> is returned
  unchanged.
\<close>

theorem C5_unwrapSSEResponse:
  \<open>(\<not> HasPrefix data ''event:'' \<and> \<not> HasPrefix data ''data:'' \<longrightarrow>
       unwrapSSEResponse data = data)
   \<and> unwrapSSEResponse ''event: message\<newline>data: {"a":1}\<newline>\<newline>data: {"b":2}''
       = ''{"a":1}{"b":2}''
   \<and> ((HasPrefix data ''event:'' \<or> HasPrefix data ''data:'')
        \<and> (\<forall>line\<in>set (Split_newline data). \<not> HasPrefix (TrimSpace line) ''data:'') \<longrightarrow>
       unwrapSSEResponse data = data)\<close>
proof (intro conjI impI)
  assume "\<not> HasPrefix data ''event:'' \<and> \<not> HasPrefix data ''data:''"
  then show "unwrapSSEResponse data = data"
    by (simp add: unwrapSSEResponse_def)
next
  show \<open>unwrapSSEResponse ''event: message\<newline>data: {"a":1}\<newline>\<newline>data: {"b":2}''
          = ''{"a":1}{"b":2}''\<close>
    by (rule unwrapSSEResponse_example)
next
  assume h: "(HasPrefix data ''event:'' \<or> HasPrefix data ''data:'')
     \<and> (\<forall>line\<in>set (Split_newline data). \<not> HasPrefix (TrimSpace line) ''data:'')"
  then have "\<forall>line\<in>set (Split_newline data). \<not> HasPrefix (TrimSpace line) ''data: ''"
    using HasPrefix_data_space by blast
  then show "unwrapSSEResponse data = data"
    by (rule unwrapSSEResponse_no_data_line)
qed

theorem C5_unwrapSSEResponse_witness:
  \<open>(\<not> HasPrefix ''{"a":1}'' ''event:'' \<and> \<not> HasPrefix ''{"a":1}'' ''data:''
      \<and> unwrapSSEResponse ''{"a":1}'' = ''{"a":1}'')
   \<and> (HasPrefix ''event: ping\<newline>id: 7'' ''event:''
      \<and> list_all (\<lambda>line. \<not> HasPrefix (TrimSpace line) ''data:'')
            (Split_newline ''event: ping\<newline>id: 7'')
      \<and> unwrapSSEResponse ''event: ping\<newline>id: 7'' = ''event: ping\<newline>id: 7'')\<close>
proof -
  have a: \<open>\<not> HasPrefix ''{"a":1}'' ''event:'' \<and> \<not> HasPrefix ''{"a":1}'' ''data:''\<close>
    by (simp add: HasPrefix_def)
  have b: \<open>HasPrefix ''event: ping\<newline>id: 7'' ''event:''\<close>
    by (simp add: HasPrefix_def)
  have c: \<open>list_all (\<lambda>line. \<not> HasPrefix (TrimSpace line) ''data:'')
            (Split_newline ''event: ping\<newline>id: 7'')\<close>
    by (simp add: HasPrefix_def TrimSpace_def space_runes_def)
  then have c': \<open>\<forall>line\<in>set (Split_newline ''event: ping\<newline>id: 7'').
            \<not> HasPrefix (TrimSpace line) ''data:''\<close>
    by (simp only: list_all_iff)
  show ?thesis
    using a b c c' C5_unwrapSSEResponse [of \<open>''{"a":1}''\<close>]
      C5_unwrapSSEResponse [of \<open>''event: ping\<newline>id: 7''\<close>]
    by blast
qed

section \<open>Properties of the queries\<close>











section \<open>Properties of the listing endpoints\<close>

lemma Atoi_examples:
  "Atoi ''0'' = Inr 0" "Atoi ''-5'' = Inr (- 5)" "Atoi ''5000'' = Inr 5000"
  "Atoi ''-1'' = Inr (- 1)" "Atoi ''25'' = Inr 25" "Atoi ''2'' = Inr 2"
  by (simp_all add: Atoi_def is_digit_def digit_val_def)

lemma Atoi_Nil: "Atoi [] = Inl ErrSyntax"
  by (simp add: Atoi_def)

lemma resolve_limit_Atoi:
  "resolve_limit s = (case Atoi s of Inr l \<Rightarrow> if 0 < l \<and> l \<le> 1000 then l else 50 | Inl e \<Rightarrow> 50)"
  by (cases "s = []") (simp_all add: resolve_limit_def Atoi_Nil)

lemma resolve_offset_Atoi:
  "resolve_offset s = (case Atoi s of Inr ofs \<Rightarrow> if 0 \<le> ofs then ofs else 0 | Inl e \<Rightarrow> 0)"
  by (cases "s = []") (simp_all add: resolve_offset_def Atoi_Nil)

text \<open>
  Claim C7. The \<^verbatim>\<open>limit\<close> values \<^verbatim>\<open>0\<close>, \<^verbatim>\<open>-5\<close> and \<^verbatim>\<open>5000\<close> resolve to 50 and the
  \<^verbatim>\<open>offset\<close> value \<^verbatim>\<open>-1\<close> resolves to 0: a limit is taken only when it parses to a number
  in \<open>(0, 1000]\<close>, an offset only when it parses to a number \<open>\<ge> 0\<close>, and is the default
  (50, 0) otherwise. Each of the four listing endpoints queries the store with the
  resolved limit and offset and reports them in its answer.
\<close>

theorem C7_pagination:
  "resolve_limit ''0'' = 50 \<and> resolve_limit ''-5'' = 50 \<and> resolve_limit ''5000'' = 50
   \<and> resolve_offset ''-1'' = 0
   \<and> resolve_limit s = (case Atoi s of Inr l \<Rightarrow> if 0 < l \<and> l \<le> 1000 then l else 50 | Inl e \<Rightarrow> 50)
   \<and> resolve_offset s = (case Atoi s of Inr ofs \<Rightarrow> if 0 \<le> ofs then ofs else 0 | Inl e \<Rightarrow> 0)
   \<and> GetAuditRequests_handler f db q =
        respond_listing ''audit requests''
          (resolve_limit (Values_Get q ''limit'')) (resolve_offset (Values_Get q ''offset''))
          (GetAuditRequests f db (resolve_limit (Values_Get q ''limit''))
             (resolve_offset (Values_Get q ''offset'')))
   \<and> GetAuditResponses_handler f db q =
        respond_listing ''audit responses''
          (resolve_limit (Values_Get q ''limit'')) (resolve_offset (Values_Get q ''offset''))
          (GetAuditResponses f db (resolve_limit (Values_Get q ''limit''))
             (resolve_offset (Values_Get q ''offset'')))
   \<and> GetOrphanedRequests_handler f db q =
        respond_listing ''orphaned requests''
          (resolve_limit (Values_Get q ''limit'')) (resolve_offset (Values_Get q ''offset''))
          (GetOrphanedRequests f db (resolve_limit (Values_Get q ''limit''))
             (resolve_offset (Values_Get q ''offset'')))
   \<and> GetAuditLogs_handler f db q =
        respond_listing ''audit logs''
          (resolve_limit (Values_Get q ''limit'')) (resolve_offset (Values_Get q ''offset''))
          (if Values_Get q ''method'' \<noteq> []
           then GetAuditLogsByMethod f db (Values_Get q ''method'')
                  (resolve_limit (Values_Get q ''limit'')) (resolve_offset (Values_Get q ''offset''))
           else GetAuditLogs f db (resolve_limit (Values_Get q ''limit''))
                  (resolve_offset (Values_Get q ''offset'')))"
proof (intro conjI)
  show "resolve_limit ''0'' = 50" "resolve_limit ''-5'' = 50" "resolve_limit ''5000'' = 50"
    by (simp_all add: resolve_limit_Atoi Atoi_examples)
  show "resolve_offset ''-1'' = 0"
    by (simp add: resolve_offset_Atoi Atoi_examples)
  show "resolve_limit s = (case Atoi s of Inr l \<Rightarrow> if 0 < l \<and> l \<le> 1000 then l else 50 | Inl e \<Rightarrow> 50)"
    by (rule resolve_limit_Atoi)
  show "resolve_offset s = (case Atoi s of Inr ofs \<Rightarrow> if 0 \<le> ofs then ofs else 0 | Inl e \<Rightarrow> 0)"
    by (rule resolve_offset_Atoi)
qed (simp_all add: GetAuditRequests_handler_def GetAuditResponses_handler_def
       GetOrphanedRequests_handler_def GetAuditLogs_handler_def Let_def)

theorem C7_pagination_witness:
  "GetAuditRequests_handler None example_store [(''limit'', [''5000'']), (''offset'', [''-1''])]
     = Inr \<lparr>lst_rows = map scan_request
                          [example_request_row 2 30 ''b'', example_request_row 3 20 ''c'',
                           example_request_row 1 10 ''a''],
            lst_limit = 50, lst_offset = 0, lst_count = 3\<rparr>
   \<and> GetAuditRequests_handler None example_store [(''limit'', [''2'']), (''offset'', [''25''])]
     = Inr \<lparr>lst_rows = [], lst_limit = 2, lst_offset = 25, lst_count = 0\<rparr>
   \<and> resolve_limit ''2'' = 2 \<and> resolve_offset ''25'' = 25"
proof -
  have l: "resolve_limit ''5000'' = 50" "resolve_offset ''-1'' = 0"
    using C7_pagination by blast+
  have m: "resolve_limit ''2'' = 2" "resolve_offset ''25'' = 25"
    using C7_pagination [of "''2''"] C7_pagination [of "''25''"]
    by (simp_all add: Atoi_examples)
  have rows: "order_by_desc rq_timestamp (audit_requests example_store)
                = [example_request_row 2 30 ''b'', example_request_row 3 20 ''c'',
                   example_request_row 1 10 ''a'']"
    by (simp add: order_by_desc_def example_store_def example_request_row_def)
  have a: "GetAuditRequests_handler None example_store [(''limit'', [''5000'']), (''offset'', [''-1''])]
     = Inr \<lparr>lst_rows = map scan_request
                          [example_request_row 2 30 ''b'', example_request_row 3 20 ''c'',
                           example_request_row 1 10 ''a''],
            lst_limit = 50, lst_offset = 0, lst_count = 3\<rparr>"
    using C7_pagination [of "[]" None example_store "[(''limit'', [''5000'']), (''offset'', [''-1''])]"]
    by (simp add: Values_Get_def l respond_listing_def GetAuditRequests_def rows limit_offset_def)
  have b: "GetAuditRequests_handler None example_store [(''limit'', [''2'']), (''offset'', [''25''])]
     = Inr \<lparr>lst_rows = [], lst_limit = 2, lst_offset = 25, lst_count = 0\<rparr>"
    using C7_pagination [of "[]" None example_store "[(''limit'', [''2'']), (''offset'', [''25''])]"]
    by (simp add: Values_Get_def m respond_listing_def GetAuditRequests_def rows limit_offset_def)
  show ?thesis using a b m by simp
qed

section \<open>Properties of the statistics\<close>

lemma exponent_up_numeral:
  "exponent_up (numeral n) k x =
     (if x < 2 ^ (k + 1) then k else exponent_up (pred_numeral n) (k + 1) x)"
  by (simp add: numeral_eq_Suc)

lemma exponent_down_numeral:
  "exponent_down (numeral n) k x =
     (if 1 \<le> x * 2 ^ k then k else exponent_down (pred_numeral n) (k + 1) x)"
  by (simp add: numeral_eq_Suc)

lemma floor_rat_numeral:
  "\<lfloor>(numeral a :: rat) / numeral b\<rfloor> = numeral a div numeral b"
  using floor_divide_of_int_eq [of "numeral a" "numeral b", where ?'a = rat] by simp

lemmas round64_eval =
  round64_def round64_pos_def round_half_even_def exponent_up_numeral exponent_down_numeral
  Let_def floor_rat_numeral

text \<open>
  The operations on some numbers: one error in two responses gives 50, and 7 errors in
  100 responses give \<open>7 + 2^(-50)\<close> (printed \<^verbatim>\<open>7.000000000000001\<close>), since 7/100 is no
  \<^verbatim>\<open>float64\<close>; one error in three responses gives \<^verbatim>\<open>33.33333333333333\<close>, and the
  average of the times 1, 1 and 2 is \<^verbatim>\<open>1.3333333333333333\<close>.
\<close>

lemma float64_of_int_examples:
  "float64_of_int 1 = 1" "float64_of_int 2 = 2" "float64_of_int 7 = 7"
  "float64_of_int 40 = 40" "float64_of_int 100 = 100"
  by (simp_all add: float64_of_int_def round64_eval)

lemma float64_div_examples:
  "float64_div 1 2 = 1 / 2" "float64_div 40 1 = 40"
  "float64_div 7 100 = 5044031582654956 / 72057594037927936"
  "float64_div 1 3 = 6004799503160661 / 18014398509481984"
  "float64_div 4 3 = 6004799503160661 / 4503599627370496"
  by (simp_all add: float64_div_def round64_eval)

lemma float64_mul_examples:
  "float64_mul (1 / 2) 100 = 50"
  "float64_mul (5044031582654956 / 72057594037927936) 100 = 7 + 1 / 2 ^ 50"
  "float64_mul (6004799503160661 / 18014398509481984) 100
     = 2345624805922133 / 70368744177664"
  by (simp_all add: float64_mul_def round64_eval)

lemma float64_rate_half:
  "float64_mul (float64_div (float64_of_int 1) (float64_of_int 2)) 100 = 50"
  by (simp only: float64_of_int_examples float64_div_examples float64_mul_examples)

lemma float64_rate_seven:
  "float64_mul (float64_div (float64_of_int 7) (float64_of_int 100)) 100 = 7 + 1 / 2 ^ 50"
  by (simp only: float64_of_int_examples float64_div_examples float64_mul_examples)

lemma example_error_count: "error_count example_store = 1"
  by (simp add: error_count_def example_store_def example_response_row_def)

lemma example_avg: "avg_process_time example_store = Some 40"
proof -
  have "avg_process_time example_store
          = Some (float64_div (float64_of_int 40) (float64_of_int 1))"
    by (simp add: avg_process_time_def example_store_def example_response_row_def)
  then show ?thesis
    by (simp only: float64_of_int_examples float64_div_examples)
qed

lemma example_stats_returns:
  "\<exists>st. GetStats no_stats_faults (\<lambda>t. False) example_store = Inr st"
  by (simp add: GetStats_def no_stats_faults_def Let_def)

lemma GetStats_error_entries:
  "GetStats f recent db = Inr st \<Longrightarrow> errors_err f = None \<Longrightarrow>
   st ''error_count'' = Some (IntStat (error_count db))
   \<and> st ''error_rate'' =
       Some (FloatStat
               (if audit_responses db = [] then 0
                else float64_mul
                       (float64_div (float64_of_int (error_count db))
                          (float64_of_int (int (length (audit_responses db)))))
                       100))"
  by (auto simp: GetStats_def Let_def split: option.splits)

lemma GetStats_no_error_entries:
  "GetStats f recent db = Inr st \<Longrightarrow> errors_err f = Some e \<Longrightarrow>
   st ''error_count'' = None \<and> st ''error_rate'' = None"
  by (auto simp: GetStats_def Let_def split: option.splits)

lemma GetStats_avg_entry:
  "GetStats f recent db = Inr st \<Longrightarrow> avg_err f = None \<Longrightarrow>
   st ''avg_response_time_ms'' = map_option FloatStat (avg_process_time db)"
  by (auto simp: GetStats_def Let_def split: option.splits)

lemma GetStats_no_avg_entry:
  "GetStats f recent db = Inr st \<Longrightarrow> avg_err f = Some e \<Longrightarrow>
   st ''avg_response_time_ms'' = None"
  by (auto simp: GetStats_def Let_def split: option.splits)

text \<open>
  Claim C6, as the code has it. \<^const>\<open>GetStats\<close> returns its map whenever the two
  \<^verbatim>\<open>COUNT\<close> queries and the method query run. When the error query runs, the entry
  \<^verbatim>\<open>error_rate\<close> is \<^verbatim>\<open>float64(errorCount) / float64(totalResponses) * 100\<close> in
  \<^verbatim>\<open>float64\<close> arithmetic, where \<^verbatim>\<open>errorCount\<close> is the number of responses with a
  non-empty error text: a percentage, and 0 when there is no response. When the average
  query runs, the entry \<^verbatim>\<open>avg_response_time_ms\<close> is the \<^verbatim>\<open>float64\<close> quotient of the sum
  of the process times that are greater than 0 by their number, and is absent when there
  is none. When the error query fails, the entries \<^verbatim>\<open>error_count\<close> and \<^verbatim>\<open>error_rate\<close>
  are absent; when the average query fails, the entry \<^verbatim>\<open>avg_response_time_ms\<close> is absent.
\<close>

theorem C6_GetStats:
  "(total_requests_err f = None \<and> total_responses_err f = None \<and> methods_err f = None \<longrightarrow>
      (\<exists>st. GetStats f recent db = Inr st))
   \<and> (GetStats f recent db = Inr st \<and> errors_err f = None \<longrightarrow>
        st ''error_count'' = Some (IntStat (error_count db))
        \<and> st ''error_rate'' =
            Some (FloatStat
                    (if audit_responses db = [] then 0
                     else float64_mul
                            (float64_div (float64_of_int (error_count db))
                               (float64_of_int (int (length (audit_responses db)))))
                            100)))
   \<and> (GetStats f recent db = Inr st \<and> errors_err f \<noteq> None \<longrightarrow>
        st ''error_count'' = None \<and> st ''error_rate'' = None)
   \<and> (GetStats f recent db = Inr st \<and> avg_err f = None \<longrightarrow>
        st ''avg_response_time_ms'' = map_option FloatStat (avg_process_time db))
   \<and> (GetStats f recent db = Inr st \<and> avg_err f \<noteq> None \<longrightarrow>
        st ''avg_response_time_ms'' = None)
   \<and> error_count db
       = int (length (filter (\<lambda>p. rs_error p \<noteq> None \<and> rs_error p \<noteq> Some [])
                        (audit_responses db)))
   \<and> avg_process_time db
       = (if \<forall>p \<in> set (audit_responses db). rs_process_time_ms p \<le> 0 then None
          else Some (float64_div
                       (float64_of_int
                          (sum_list (map rs_process_time_ms
                             (filter (\<lambda>p. rs_process_time_ms p > 0) (audit_responses db)))))
                       (float64_of_int
                          (int (length (filter (\<lambda>p. rs_process_time_ms p > 0)
                                          (audit_responses db)))))))"
proof (intro conjI impI)
  assume "total_requests_err f = None \<and> total_responses_err f = None \<and> methods_err f = None"
  then show "\<exists>st. GetStats f recent db = Inr st"
    by (simp add: GetStats_def Let_def)
next
  assume h: "GetStats f recent db = Inr st \<and> errors_err f = None"
  then show "st ''error_count'' = Some (IntStat (error_count db))"
    using GetStats_error_entries by blast
  from h show "st ''error_rate'' =
            Some (FloatStat
                    (if audit_responses db = [] then 0
                     else float64_mul
                            (float64_div (float64_of_int (error_count db))
                               (float64_of_int (int (length (audit_responses db)))))
                            100))"
    using GetStats_error_entries by blast
next
  assume h: "GetStats f recent db = Inr st \<and> errors_err f \<noteq> None"
  then show "st ''error_count'' = None" "st ''error_rate'' = None"
    using GetStats_no_error_entries by blast+
next
  assume h: "GetStats f recent db = Inr st \<and> avg_err f = None"
  then show "st ''avg_response_time_ms'' = map_option FloatStat (avg_process_time db)"
    using GetStats_avg_entry by blast
next
  assume h: "GetStats f recent db = Inr st \<and> avg_err f \<noteq> None"
  then show "st ''avg_response_time_ms'' = None"
    using GetStats_no_avg_entry by blast
next
  have eq: "(\<lambda>p. case rs_error p of None \<Rightarrow> False | Some e \<Rightarrow> e \<noteq> [])
          = (\<lambda>p. rs_error p \<noteq> None \<and> rs_error p \<noteq> Some [])"
    by (auto split: option.splits)
  show "error_count db
       = int (length (filter (\<lambda>p. rs_error p \<noteq> None \<and> rs_error p \<noteq> Some [])
                        (audit_responses db)))"
    by (simp only: error_count_def eq)
next
  show "avg_process_time db
       = (if \<forall>p \<in> set (audit_responses db). rs_process_time_ms p \<le> 0 then None
          else Some (float64_div
                       (float64_of_int
                          (sum_list (map rs_process_time_ms
                             (filter (\<lambda>p. rs_process_time_ms p > 0) (audit_responses db)))))
                       (float64_of_int
                          (int (length (filter (\<lambda>p. rs_process_time_ms p > 0)
                                          (audit_responses db)))))))"
    by (auto simp: avg_process_time_def Let_def filter_empty_conv not_less)
qed

theorem C6_GetStats_witness:
  "(case GetStats no_stats_faults (\<lambda>t. False) example_store of
      Inl e \<Rightarrow> False
    | Inr st \<Rightarrow> st ''error_count'' = Some (IntStat 1)
              \<and> st ''error_rate'' = Some (FloatStat 50)
              \<and> st ''avg_response_time_ms'' = Some (FloatStat 40))
   \<and> (case GetStats (no_stats_faults\<lparr>errors_err := Some ''database is locked'',
                                      avg_err := Some ''database is locked''\<rparr>)
              (\<lambda>t. False) example_store of
        Inl e \<Rightarrow> False
      | Inr st \<Rightarrow> st ''error_count'' = None \<and> st ''error_rate'' = None
                \<and> st ''avg_response_time_ms'' = None)"
proof -
  have nf: "total_requests_err no_stats_faults = None \<and> total_responses_err no_stats_faults = None
            \<and> methods_err no_stats_faults = None"
           "errors_err no_stats_faults = None" "avg_err no_stats_faults = None"
    by (simp_all add: no_stats_faults_def)
  from C6_GetStats [of no_stats_faults "\<lambda>t. False" example_store] nf(1)
  obtain st where st: "GetStats no_stats_faults (\<lambda>t. False) example_store = Inr st"
    by blast
  have two: "audit_responses example_store \<noteq> []" "length (audit_responses example_store) = 2"
    by (simp_all add: example_store_def)
  from C6_GetStats [of no_stats_faults "\<lambda>t. False" example_store st] st nf
  have "st ''error_count'' = Some (IntStat (error_count example_store))
        \<and> st ''error_rate'' =
            Some (FloatStat
                    (if audit_responses example_store = [] then 0
                     else float64_mul
                            (float64_div (float64_of_int (error_count example_store))
                               (float64_of_int (int (length (audit_responses example_store)))))
                            100))
        \<and> st ''avg_response_time_ms'' = map_option FloatStat (avg_process_time example_store)"
    by blast
  then have first: "st ''error_count'' = Some (IntStat 1)
        \<and> st ''error_rate'' = Some (FloatStat 50)
        \<and> st ''avg_response_time_ms'' = Some (FloatStat 40)"
    using two by (simp add: example_error_count example_avg float64_rate_half)
  let ?f = "no_stats_faults\<lparr>errors_err := Some ''database is locked'',
                            avg_err := Some ''database is locked''\<rparr>"
  have ff: "total_requests_err ?f = None \<and> total_responses_err ?f = None
            \<and> methods_err ?f = None"
           "errors_err ?f \<noteq> None" "avg_err ?f \<noteq> None"
    by (simp_all add: no_stats_faults_def)
  from C6_GetStats [of ?f "\<lambda>t. False" example_store] ff(1)
  obtain st' where st': "GetStats ?f (\<lambda>t. False) example_store = Inr st'"
    by blast
  from C6_GetStats [of ?f "\<lambda>t. False" example_store st'] st' ff
  have second: "st' ''error_count'' = None \<and> st' ''error_rate'' = None
                \<and> st' ''avg_response_time_ms'' = None"
    by blast
  show ?thesis
    using st first st' second by simp
qed

text \<open>
  The claim as the specification states it (the error rate is the number of responses
  with an error divided by the number of responses) fails on \<^const>\<open>example_store\<close>: one of
  its two responses has an error text, and the entry is 50, not one half.
\<close>

theorem C6_error_rate_counterexample:
  "error_count example_store = 1 \<and> length (audit_responses example_store) = 2
   \<and> (case GetStats no_stats_faults (\<lambda>t. False) example_store of
        Inl e \<Rightarrow> None
      | Inr st \<Rightarrow> st ''error_rate'') = Some (FloatStat 50)
   \<and> float64_div (float64_of_int 1) (float64_of_int 2) = 1 / 2
   \<and> FloatStat 50 \<noteq> FloatStat (1 / 2)"
proof -
  obtain st where st: "GetStats no_stats_faults (\<lambda>t. False) example_store = Inr st"
    using example_stats_returns by blast
  have two: "audit_responses example_store \<noteq> []" "length (audit_responses example_store) = 2"
    by (simp_all add: example_store_def)
  have "st ''error_rate'' = Some (FloatStat 50)"
    using GetStats_error_entries [OF st]
    by (simp add: no_stats_faults_def example_error_count two float64_rate_half)
  moreover have "float64_div (float64_of_int 1) (float64_of_int 2) = 1 / 2"
    by (simp only: float64_of_int_examples float64_div_examples)
  ultimately show ?thesis
    using st two by (simp add: example_error_count)
qed

end
